theory Spec2Isabelle
  imports Complex_Main "HOL-Library.Log_Nat"
begin

section \<open>Python values used by GPS.py\<close>

text \<open>
  A \<open>bytes\<close> object is a list of 8-bit characters, which is what \<open>string\<close> is in HOL.
  The operations below are the built-in methods that GPS.py calls on \<open>bytes\<close>, modelled
  on their documented behaviour.
\<close>

type_synonym bytes = string

definition CR :: char where
  "CR = CHR 0x0D"

definition LF :: char where
  "LF = CHR 0x0A"

definition CRLF :: bytes where
  "CRLF = [CR, LF]"

text \<open>
  \<open>bytes.splitlines()\<close>: lines end at \<open>\n\<close>, \<open>\r\<close> or \<open>\r\n\<close>; the line ends are
  dropped and a final line end opens no further empty line.  The first argument is the
  line collected so far.
\<close>

fun splitlines_from :: "bytes \<Rightarrow> bytes \<Rightarrow> bytes list" where
  "splitlines_from cur [] = (if cur = [] then [] else [cur])"
| "splitlines_from cur [c] = (if c = CR then [cur] else if c = LF then [cur] else [cur @ [c]])"
| "splitlines_from cur (c # d # cs) =
     (if c = CR then (if d = LF then cur # splitlines_from [] cs
                      else cur # splitlines_from [] (d # cs))
      else if c = LF then cur # splitlines_from [] (d # cs)
      else splitlines_from (cur @ [c]) (d # cs))"

definition splitlines :: "bytes \<Rightarrow> bytes list" where
  "splitlines s = splitlines_from [] s"

text \<open>\<open>bytes.split(sep)\<close> for a one-byte separator: one more piece than separators.\<close>

fun split_from :: "char \<Rightarrow> bytes \<Rightarrow> bytes \<Rightarrow> bytes list" where
  "split_from sep cur [] = [cur]"
| "split_from sep cur (c # cs) =
     (if c = sep then cur # split_from sep [] cs else split_from sep (cur @ [c]) cs)"

definition split_bytes :: "bytes \<Rightarrow> char \<Rightarrow> bytes list" where
  "split_bytes s sep = split_from sep [] s"

text \<open>\<open>s.startswith(p)\<close> and the substring test \<open>sub in s\<close>.\<close>

definition startswith :: "bytes \<Rightarrow> bytes \<Rightarrow> bool" where
  "startswith s p = (take (length p) s = p)"

fun contains :: "bytes \<Rightarrow> bytes \<Rightarrow> bool" where
  "contains sub [] = (sub = [])"
| "contains sub (c # cs) = (if startswith (c # cs) sub then True else contains sub cs)"

text \<open>
  Python compares a \<open>bytes\<close> object and a \<open>str\<close> object as unequal whatever their
  contents; \<open>==\<close> is only informative between two values of the same type.
\<close>

datatype pyval = Bytes bytes | Str string

fun py_eq :: "pyval \<Rightarrow> pyval \<Rightarrow> bool" where
  "py_eq (Bytes a) (Bytes b) = (a = b)"
| "py_eq (Str a) (Str b) = (a = b)"
| "py_eq (Bytes a) (Str b) = False"
| "py_eq (Str a) (Bytes b) = False"

subsection \<open>Exceptions\<close>

text \<open>
  Every exception GPS.py can raise is a \<open>ValueError\<close> or a \<open>TypeError\<close>.  A
  \<open>ValueError\<close> carries the place that raised it, which stands for its message:
  the two \<open>raise\<close> statements of \<open>parse_gpsinfo\<close>, the nine-name unpacking, \<open>float\<close>,
  \<open>decode\<close> and \<open>strptime\<close>.  The \<open>TypeError\<close> is the one of unpacking \<open>None\<close>.
\<close>

datatype origin =
    Wrong_format
  | No_info_line
  | Unpack
  | Float_conversion
  | Decode
  | Strptime

datatype error = ValueError origin | TypeError

subsection \<open>Floating point\<close>

text \<open>
  A Python \<open>float\<close> is an IEEE 754 binary64 number.  A finite one is modelled by the
  rational number it denotes, and every arithmetic operation rounds its exact result to
  the nearest binary64 number, ties to the even significand.  Infinities and NaN are not
  modelled: a result of magnitude \<open>2 ^ 1024\<close> or more is outside the model.
\<close>

type_synonym float = rat

definition pow2 :: "int \<Rightarrow> rat" where
  "pow2 e = (if 0 \<le> e then 2 ^ nat e else 1 / 2 ^ nat (- e))"

definition ilog2 :: "rat \<Rightarrow> int" where
  "ilog2 q = (case quotient_of q of (a, b) \<Rightarrow>
     (let k = bitlen a - bitlen b in if pow2 k \<le> q then k else k - 1))"

definition round_half_even :: "rat \<Rightarrow> int" where
  "round_half_even q =
     (let f = \<lfloor>q\<rfloor>; r = q - of_int f
      in if r < 1 / 2 then f else if 1 / 2 < r then f + 1 else if even f then f else f + 1)"

definition binary64 :: "rat \<Rightarrow> float" where
  "binary64 q =
     (if q = 0 then 0
      else (let a = \<bar>q\<bar>; e = max (ilog2 a) (- 1022); ulp = pow2 (e - 52)
            in sgn q * of_int (round_half_even (a / ulp)) * ulp))"

definition fadd :: "float \<Rightarrow> float \<Rightarrow> float" where
  "fadd x y = binary64 (x + y)"

definition fdiv :: "float \<Rightarrow> float \<Rightarrow> float" where
  "fdiv x y = binary64 (x / y)"

definition fneg :: "float \<Rightarrow> float" where
  "fneg x = - x"

subsection \<open>Decimal digits\<close>

definition is_digit :: "char \<Rightarrow> bool" where
  "is_digit c = (48 \<le> (of_char c :: nat) \<and> (of_char c :: nat) \<le> 57)"

definition digit_val :: "char \<Rightarrow> nat" where
  "digit_val c = of_char c - 48"

fun digits_val :: "nat \<Rightarrow> string \<Rightarrow> nat" where
  "digits_val acc [] = acc"
| "digits_val acc (c # cs) = digits_val (10 * acc + digit_val c) cs"

text \<open>
  \<open>float(b)\<close> on the decimal literals the modem sends: an optional sign, then digits with
  an optional fraction, at least one digit in all; the value is the binary64 number nearest
  to the decimal.  Anything else raises \<open>ValueError\<close>, the empty text included.  The other
  spellings Python's \<open>float\<close> reads (an exponent, blanks around the number, underscores,
  \<open>inf\<close>, \<open>nan\<close>) never occur in a reply and are outside this model.
\<close>

definition unsigned_decimal :: "bytes \<Rightarrow> rat option" where
  "unsigned_decimal s =
     (let ip = takeWhile is_digit s; rest = dropWhile is_digit s;
          fp = (case rest of [] \<Rightarrow> [] | c # cs \<Rightarrow> cs)
      in if (case rest of [] \<Rightarrow> True | c # cs \<Rightarrow> c = CHR ''.'' \<and> list_all is_digit cs)
            \<and> 0 < length ip + length fp
         then Some (of_nat (digits_val 0 (ip @ fp)) / 10 ^ length fp)
         else None)"

definition py_float :: "bytes \<Rightarrow> error + float" where
  "py_float s =
     (case s of
        [] \<Rightarrow> Inl (ValueError Float_conversion)
      | c # cs \<Rightarrow>
          if c = CHR ''-'' then
            (case unsigned_decimal cs of
               None \<Rightarrow> Inl (ValueError Float_conversion)
             | Some q \<Rightarrow> Inr (binary64 (- q)))
          else
            (case unsigned_decimal (if c = CHR ''+'' then cs else s) of
               None \<Rightarrow> Inl (ValueError Float_conversion)
             | Some q \<Rightarrow> Inr (binary64 q)))"

subsection \<open>Dates and times\<close>

text \<open>
  \<open>b.decode()\<close> reads UTF-8.  The model accepts ASCII, which is all a reply holds, and
  reports any byte from 128 on as the decoding error.
\<close>

definition decode :: "bytes \<Rightarrow> error + string" where
  "decode b = (if list_all (\<lambda>c. (of_char c :: nat) < 128) b then Inr b
               else Inl (ValueError Decode))"

text \<open>
  \<open>datetime.strptime\<close> turns the format \<open>%d%m%y %H%M%S.%f\<close> into a regular expression and
  takes the first match the backtracking matcher finds at the start of the text.  A
  matcher below lists, in the order the regular expression tries them, the ways to read a
  prefix of the text: the value read and the text left.
\<close>

type_synonym 'a rx = "string \<Rightarrow> ('a \<times> string) list"

definition two_digits :: "(nat \<Rightarrow> bool) \<Rightarrow> nat rx" where
  "two_digits ok s =
     (case s of
        a # b # r \<Rightarrow>
          if is_digit a \<and> is_digit b \<and> ok (10 * digit_val a + digit_val b)
          then [(10 * digit_val a + digit_val b, r)] else []
      | _ \<Rightarrow> [])"

definition one_digit :: "(nat \<Rightarrow> bool) \<Rightarrow> nat rx" where
  "one_digit ok s =
     (case s of
        a # r \<Rightarrow> if is_digit a \<and> ok (digit_val a) then [(digit_val a, r)] else []
      | [] \<Rightarrow> [])"

text \<open>\<open>%d\<close> is \<open>3[0-1]|[1-2]\d|0[1-9]|[1-9]| [1-9]\<close>.\<close>

definition rx_d :: "nat rx" where
  "rx_d s = two_digits (\<lambda>n. 1 \<le> n \<and> n \<le> 31) s @ one_digit (\<lambda>n. 1 \<le> n) s @
     (case s of c # r \<Rightarrow> if c = CHR '' '' then one_digit (\<lambda>n. 1 \<le> n) r else [] | [] \<Rightarrow> [])"

text \<open>\<open>%m\<close> is \<open>1[0-2]|0[1-9]|[1-9]\<close> and \<open>%y\<close> is \<open>\d\d\<close>.\<close>

definition rx_m :: "nat rx" where
  "rx_m s = two_digits (\<lambda>n. 1 \<le> n \<and> n \<le> 12) s @ one_digit (\<lambda>n. 1 \<le> n) s"

definition rx_y :: "nat rx" where
  "rx_y s = two_digits (\<lambda>n. True) s"

text \<open>
  \<open>%H\<close> is \<open>2[0-3]|[0-1]\d|\d\<close>, \<open>%M\<close> is \<open>[0-5]\d|\d\<close> and \<open>%S\<close> is
  \<open>6[0-1]|[0-5]\d|\d\<close>.
\<close>

definition rx_H :: "nat rx" where
  "rx_H s = two_digits (\<lambda>n. n \<le> 23) s @ one_digit (\<lambda>n. True) s"

definition rx_M :: "nat rx" where
  "rx_M s = two_digits (\<lambda>n. n \<le> 59) s @ one_digit (\<lambda>n. True) s"

definition rx_S :: "nat rx" where
  "rx_S s = two_digits (\<lambda>n. n \<le> 61) s @ one_digit (\<lambda>n. True) s"

text \<open>\<open>%f\<close> is \<open>[0-9]{1,6}\<close>, greedy: the longest run of digits first.\<close>

definition rx_f :: "string rx" where
  "rx_f s = map (\<lambda>k. (take k s, drop k s))
              (rev [1 ..< Suc (length (takeWhile is_digit (take 6 s)))])"

text \<open>The blank of the format is \<open>\s+\<close>, greedy as well.\<close>

definition is_space :: "char \<Rightarrow> bool" where
  "is_space c = (let n = (of_char c :: nat)
                 in if n = 32 then True else if 9 \<le> n \<and> n \<le> 13 then True
                    else 28 \<le> n \<and> n \<le> 31)"

definition rx_space :: "unit rx" where
  "rx_space s = map (\<lambda>k. ((), drop k s))
                  (rev [1 ..< Suc (length (takeWhile is_space s))])"

definition rx_dot :: "unit rx" where
  "rx_dot s = (case s of c # r \<Rightarrow> if c = CHR ''.'' then [((), r)] else [] | [] \<Rightarrow> [])"

definition seq :: "'a rx \<Rightarrow> ('a \<Rightarrow> 'b rx) \<Rightarrow> 'b rx" where
  "seq p q s = concat (map (\<lambda>(a, r). q a r) (p s))"

definition yield :: "'a \<Rightarrow> 'a rx" where
  "yield a s = [(a, s)]"

record datetime =
  year :: nat
  month :: nat
  day :: nat
  hour :: nat
  minute :: nat
  second :: nat
  microsecond :: nat

definition format_regex :: "datetime rx" where
  "format_regex =
     seq rx_d (\<lambda>d. seq rx_m (\<lambda>m. seq rx_y (\<lambda>y. seq rx_space (\<lambda>_.
     seq rx_H (\<lambda>H. seq rx_M (\<lambda>M. seq rx_S (\<lambda>S. seq rx_dot (\<lambda>_.
     seq rx_f (\<lambda>f. yield
       \<lparr>year = (if y \<le> 68 then 2000 + y else 1900 + y), month = m, day = d,
        hour = H, minute = M, second = S,
        microsecond = digits_val 0 (f @ replicate (6 - length f) (CHR ''0''))\<rparr>)))))))))"

definition is_leap :: "nat \<Rightarrow> bool" where
  "is_leap y = (if y mod 400 = 0 then True else if y mod 100 = 0 then False else y mod 4 = 0)"

definition days_in_month :: "nat \<Rightarrow> nat \<Rightarrow> nat" where
  "days_in_month y m =
     (if m = 2 then (if is_leap y then 29 else 28)
      else if m = 4 \<or> m = 6 \<or> m = 9 \<or> m = 11 then 30 else 31)"

text \<open>
  After the match, text left over is an error (\<open>unconverted data remains\<close>), and so is
  a day the month does not have or a second beyond 59, which the \<open>datetime\<close>
  constructor refuses.
\<close>

definition strptime :: "string \<Rightarrow> error + datetime" where
  "strptime s =
     (case format_regex s of
        [] \<Rightarrow> Inl (ValueError Strptime)
      | (t, r) # _ \<Rightarrow>
          if r = [] \<and> day t \<le> days_in_month (year t) (month t) \<and> second t \<le> 59
          then Inr t else Inl (ValueError Strptime))"

text \<open>
  \<open>datetime.timestamp()\<close> of a datetime without time zone, which is what \<open>strptime\<close>
  returns here: the fields are read as the local time of the host.  \<open>utcoffset\<close> is the
  number of seconds the host's local time is ahead of UTC at that moment; it is \<open>0\<close> on a
  host whose zone is UTC.  The result is the whole seconds since 1970-01-01T00:00:00 UTC
  plus \<open>microsecond / 1e6\<close>, in floating point.
\<close>

definition days_before_year :: "nat \<Rightarrow> int" where
  "days_before_year y = (let p = int y - 1 in p * 365 + p div 4 - p div 100 + p div 400)"

definition days_before_month :: "nat \<Rightarrow> nat \<Rightarrow> int" where
  "days_before_month y m = int (sum_list (map (days_in_month y) [1 ..< m]))"

definition ymd2ord :: "nat \<Rightarrow> nat \<Rightarrow> nat \<Rightarrow> int" where
  "ymd2ord y m d = days_before_year y + days_before_month y m + int d"

definition mktime :: "int \<Rightarrow> datetime \<Rightarrow> int" where
  "mktime utcoffset t =
     (ymd2ord (year t) (month t) (day t) - 719163) * 86400
       + int (hour t) * 3600 + int (minute t) * 60 + int (second t) - utcoffset"

definition datetime_timestamp :: "int \<Rightarrow> datetime \<Rightarrow> float" where
  "datetime_timestamp utcoffset t =
     fadd (binary64 (of_int (mktime utcoffset t))) (fdiv (of_nat (microsecond t)) 1000000)"

section \<open>The response parser\<close>

record GPSInfo =
  lat :: float
  lng :: float
  timestamp :: float
  alt :: float
  speed :: float

definition bind :: "error + 'a \<Rightarrow> ('a \<Rightarrow> error + 'b) \<Rightarrow> error + 'b" where
  "bind r f = (case r of Inl e \<Rightarrow> Inl e | Inr a \<Rightarrow> f a)"

text \<open>
  \<open>parse_gpsinfo_line\<close>: the nine fields are unpacked from the split at the commas, and
  the conversions run in the order of the source, the first failure being the exception
  raised.  The hemisphere fields \<open>ns\<close> and \<open>ew\<close> are \<open>bytes\<close>, and the source compares
  them with the \<open>str\<close> literals \<open>'S'\<close> and \<open>'W'\<close>.
\<close>

definition parse_gpsinfo_line :: "int \<Rightarrow> bytes \<Rightarrow> error + GPSInfo" where
  "parse_gpsinfo_line utcoffset line =
     (case split_bytes line (CHR '','') of
        [lat_b, ns, lng_b, ew, date, utctime, alt_b, speed_b, course] \<Rightarrow>
          bind (py_float (take 2 lat_b)) (\<lambda>lat_deg.
          bind (py_float (drop 2 lat_b)) (\<lambda>lat_min.
          bind (py_float (take 3 lng_b)) (\<lambda>lng_deg.
          bind (py_float (drop 3 lng_b)) (\<lambda>lng_min.
          let latfloat = fadd lat_deg (fdiv lat_min 60);
              lngfloat = fadd lng_deg (fdiv lng_min 60);
              latfloat = (if py_eq (Bytes ns) (Str ''S'') then fneg latfloat else latfloat);
              lngfloat = (if py_eq (Bytes ew) (Str ''W'') then fneg lngfloat else lngfloat)
          in
          bind (decode date) (\<lambda>date_s.
          bind (decode utctime) (\<lambda>utctime_s.
          bind (strptime (date_s @ '' '' @ utctime_s)) (\<lambda>t.
          bind (py_float alt_b) (\<lambda>altfloat.
          bind (py_float speed_b) (\<lambda>speedfloat.
            Inr \<lparr>lat = latfloat, lng = lngfloat,
                 timestamp = datetime_timestamp utcoffset t,
                 alt = altfloat, speed = speedfloat\<rparr>)))))))))
      | _ \<Rightarrow> Inl (ValueError Unpack))"

text \<open>
  \<open>parse_gpsinfo\<close>: the framing test, then the loop over the lines, which hands the
  first line with the prefix to \<open>parse_gpsinfo_line\<close>.
\<close>

fun scan_lines :: "int \<Rightarrow> bytes list \<Rightarrow> error + GPSInfo" where
  "scan_lines utcoffset [] = Inl (ValueError No_info_line)"
| "scan_lines utcoffset (line # rest) =
     (if startswith line ''+CGPSINFO: ''
      then parse_gpsinfo_line utcoffset (drop (length ''+CGPSINFO: '') line)
      else scan_lines utcoffset rest)"

definition parse_gpsinfo :: "int \<Rightarrow> bytes \<Rightarrow> error + GPSInfo" where
  "parse_gpsinfo utcoffset gpsinfo =
     (let lines = splitlines gpsinfo
      in if lines = [] then Inl (ValueError Wrong_format)
         else if hd lines \<noteq> ''AT+CGPSINFO'' then Inl (ValueError Wrong_format)
         else if last lines \<noteq> ''OK'' then Inl (ValueError Wrong_format)
         else scan_lines utcoffset lines)"

section \<open>The serial channel\<close>

text \<open>
  The port is an object of the \<open>serial\<close> package, outside GPS.py.  The model keeps
  what was written to it and takes from a script what it answers: the successive results
  of \<open>comm.inWaiting()\<close> and the successive chunks that \<open>comm.read(n)\<close> hands out, each
  cut at \<open>n\<close> bytes.  A channel whose script has run out reports nothing waiting and reads
  nothing.  \<open>time.sleep\<close> and \<open>print\<close> change nothing the functions return and are left
  out, and with them the \<open>timeout\<close> argument, which only feeds \<open>time.sleep\<close>.
\<close>

record serial =
  written :: "bytes list"
  waiting :: "nat list"
  arriving :: "bytes list"

definition comm_write :: "serial \<Rightarrow> bytes \<Rightarrow> serial" where
  "comm_write comm b = comm\<lparr>written := written comm @ [b]\<rparr>"

definition comm_inWaiting :: "serial \<Rightarrow> nat \<times> serial" where
  "comm_inWaiting comm =
     (case waiting comm of
        [] \<Rightarrow> (0, comm)
      | n # ns \<Rightarrow> (n, comm\<lparr>waiting := ns\<rparr>))"

definition comm_read :: "serial \<Rightarrow> nat \<Rightarrow> bytes \<times> serial" where
  "comm_read comm n =
     (case arriving comm of
        [] \<Rightarrow> ([], comm)
      | b # bs \<Rightarrow> (take n b, comm\<lparr>arriving := bs\<rparr>))"

section \<open>The AT transport\<close>

definition GPS_STANDALONE :: bytes where
  "GPS_STANDALONE = ''AT+CGPS=1,1''"

definition GPS_STOP :: bytes where
  "GPS_STOP = ''AT+CGPS=0''"

definition GPS_INFO :: bytes where
  "GPS_INFO = ''AT+CGPSINFO''"

text \<open>
  \<open>send_at_complex\<close> returns the pair \<open>(status, serial_answer)\<close> with status \<open>0\<close> or \<open>1\<close>,
  or, where the source runs off the end of the function, Python's \<open>None\<close>, which is
  \<open>None\<close> here.
\<close>

definition send_at_complex :: "serial \<Rightarrow> bytes \<Rightarrow> bytes \<Rightarrow> (nat \<times> bytes) option \<times> serial" where
  "send_at_complex comm command back =
     (let comm1 = comm_write comm (command @ CRLF)
      in case comm_inWaiting comm1 of (n, comm2) \<Rightarrow>
           if n \<noteq> 0 then
             (case comm_inWaiting comm2 of (m, comm3) \<Rightarrow>
                case comm_read comm3 m of (serial_answer, comm4) \<Rightarrow>
                  if serial_answer \<noteq> [] then
                    (if \<not> contains back serial_answer then (Some (0, serial_answer), comm4)
                     else (Some (1, serial_answer), comm4))
                  else (None, comm4))
           else (Some (0, []), comm2))"

section \<open>The GPS session\<close>

text \<open>
  The \<open>while rec_null\<close> loop of \<open>get_gps_position\<close>, with the flag as an argument.  The
  session returns a \<open>GPSInfo\<close> or \<open>None\<close>, or raises: the \<open>TypeError\<close> of unpacking a
  \<open>None\<close> that \<open>send_at_complex\<close> returned, or what \<open>parse_gpsinfo\<close> raises.
\<close>

function polling :: "int \<Rightarrow> bool \<Rightarrow> serial \<Rightarrow> (error + GPSInfo option) \<times> serial" where
  "polling utcoffset rec_null comm =
     (if rec_null then
        (case send_at_complex comm GPS_INFO ''+CGPSINFO: '' of
           (None, comm1) \<Rightarrow> (Inl TypeError, comm1)
         | (Some (status, serial_answer), comm1) \<Rightarrow>
             if status \<noteq> 0 then
               (if contains '',,,,,,'' serial_answer then polling utcoffset False comm1
                else (bind (parse_gpsinfo utcoffset serial_answer) (\<lambda>fix. Inr (Some fix)), comm1))
             else
               (case send_at_complex comm1 GPS_STOP ''OK'' of
                  (_, comm2) \<Rightarrow> (Inr None, comm2)))
      else (Inr None, comm))"
  by pat_completeness auto
termination
  by (relation "measure (\<lambda>(utcoffset, rec_null, comm). if rec_null then 1 else 0)") auto

definition get_gps_position :: "int \<Rightarrow> serial \<Rightarrow> (error + GPSInfo option) \<times> serial" where
  "get_gps_position utcoffset comm =
     (case send_at_complex comm GPS_STANDALONE ''OK'' of
        (_, comm1) \<Rightarrow> polling utcoffset True comm1)"

section \<open>Example replies and channels\<close>

text \<open>
  The reply of a modem without a fix, as it arrives on the wire: the echo of the command,
  the data line with nine empty fields, and the status line.
\<close>

definition empty_reply :: bytes where
  "empty_reply =
     ''AT+CGPSINFO'' @ [CR] @ CRLF @ ''+CGPSINFO: ,,,,,,,,'' @ CRLF @ CRLF @ ''OK'' @ CRLF"

text \<open>A reply cut short before the status line.\<close>

definition truncated_reply :: bytes where
  "truncated_reply = ''AT+CGPSINFO'' @ [CR] @ CRLF @ ''+CGPSINFO: ,,,,,,,,'' @ CRLF"

text \<open>
  The data line of a fix north of the equator and east of Greenwich, taken at
  2024-01-01 23:59:59.5, the same fix reported for the southern and western hemispheres,
  and the reply that carries the first.
\<close>

definition fix_line :: bytes where
  "fix_line = ''3110.123456,N,12130.654321,E,010124,235959.500000,12.3,0.5,0''"

definition southwest_line :: bytes where
  "southwest_line = ''3110.123456,S,12130.654321,W,010124,235959.500000,12.3,0.5,0''"

definition fix_time :: datetime where
  "fix_time = \<lparr>year = 2024, month = 1, day = 1, hour = 23, minute = 59, second = 59,
                microsecond = 500000\<rparr>"

definition fix_reply :: bytes where
  "fix_reply = ''AT+CGPSINFO'' @ CRLF @ ''+CGPSINFO: '' @ fix_line @ CRLF @ ''OK'' @ CRLF"

text \<open>The replies to a command the modem accepted and to one it refused.\<close>

definition ok_reply :: bytes where
  "ok_reply = ''OK'' @ CRLF"

definition error_reply :: bytes where
  "error_reply = ''ERROR'' @ CRLF"

text \<open>A port on which nothing ever arrives.\<close>

definition silent_channel :: serial where
  "silent_channel = \<lparr>written = [], waiting = [], arriving = []\<rparr>"

text \<open>A modem that accepts the start command and answers the query with an error.\<close>

definition unexpected_channel :: serial where
  "unexpected_channel =
     \<lparr>written = [], waiting = [4, 4, 7, 7], arriving = [ok_reply, error_reply]\<rparr>"

text \<open>A modem that accepts the start command and has no fix, however often it is asked.\<close>

definition not_ready_channel :: serial where
  "not_ready_channel =
     \<lparr>written = [], waiting = [4, 4, 64, 64, 64, 64],
      arriving = [ok_reply, empty_reply, empty_reply]\<rparr>"

text \<open>A port that reports five bytes waiting and then hands out none.\<close>

definition vanished_channel :: serial where
  "vanished_channel = \<lparr>written = [], waiting = [5, 5], arriving = [[]]\<rparr>"

section \<open>Properties of the codec\<close>

text \<open>
  The example data lines, evaluated step by step.  Each floating-point step is the
  rounding of a rational number, which the code equations of \<open>binary64\<close> compute.
\<close>

lemma split_fix_line:
  "split_bytes fix_line (CHR '','') =
     [''3110.123456'', ''N'', ''12130.654321'', ''E'', ''010124'', ''235959.500000'',
      ''12.3'', ''0.5'', ''0'']"
  by (simp add: fix_line_def split_bytes_def)

lemma split_southwest_line:
  "split_bytes southwest_line (CHR '','') =
     [''3110.123456'', ''S'', ''12130.654321'', ''W'', ''010124'', ''235959.500000'',
      ''12.3'', ''0.5'', ''0'']"
  by (simp add: southwest_line_def split_bytes_def)

lemma py_float_unsigned:
  assumes "unsigned_decimal (c # cs) = Some q" and "c \<noteq> CHR ''-''" and "c \<noteq> CHR ''+''"
  shows "py_float (c # cs) = Inr (binary64 q)"
  using assms by (simp add: py_float_def)

lemmas decimal_simps = unsigned_decimal_def is_digit_def digit_val_def

lemma float_lat_deg: "py_float ''31'' = Inr 31"
proof -
  have "unsigned_decimal ''31'' = Some 31" by (simp add: decimal_simps)
  then have "py_float ''31'' = Inr (binary64 31)" by (rule py_float_unsigned) simp_all
  moreover have "binary64 31 = 31" by code_simp
  ultimately show ?thesis by (simp only:)
qed

lemma float_lat_min: "py_float ''10.123456'' = Inr (5698999083662701 / 562949953421312)"
proof -
  have "unsigned_decimal ''10.123456'' = Some (10123456 / 1000000)" by (simp add: decimal_simps)
  then have "py_float ''10.123456'' = Inr (binary64 (10123456 / 1000000))"
    by (rule py_float_unsigned) simp_all
  moreover have "binary64 (10123456 / 1000000) = 5698999083662701 / 562949953421312" by code_simp
  ultimately show ?thesis by (simp only:)
qed

lemma float_lng_deg: "py_float ''121'' = Inr 121"
proof -
  have "unsigned_decimal ''121'' = Some 121" by (simp add: decimal_simps)
  then have "py_float ''121'' = Inr (binary64 121)" by (rule py_float_unsigned) simp_all
  moreover have "binary64 121 = 121" by code_simp
  ultimately show ?thesis by (simp only:)
qed

lemma float_lng_min: "py_float ''30.654321'' = Inr (8628424289555973 / 281474976710656)"
proof -
  have "unsigned_decimal ''30.654321'' = Some (30654321 / 1000000)" by (simp add: decimal_simps)
  then have "py_float ''30.654321'' = Inr (binary64 (30654321 / 1000000))"
    by (rule py_float_unsigned) simp_all
  moreover have "binary64 (30654321 / 1000000) = 8628424289555973 / 281474976710656" by code_simp
  ultimately show ?thesis by (simp only:)
qed

lemma float_alt: "py_float ''12.3'' = Inr (binary64 (123 / 10))"
proof -
  have "unsigned_decimal ''12.3'' = Some (123 / 10)" by (simp add: decimal_simps)
  then show ?thesis by (rule py_float_unsigned) simp_all
qed

lemma binary64_alt: "binary64 (123 / 10) = 3462142213541069 / 281474976710656"
  by code_simp

lemma float_speed: "py_float ''0.5'' = Inr (1 / 2)"
proof -
  have "unsigned_decimal ''0.5'' = Some (5 / 10)" by (simp add: decimal_simps)
  then have "py_float ''0.5'' = Inr (binary64 (5 / 10))" by (rule py_float_unsigned) simp_all
  moreover have "binary64 (5 / 10) = 1 / 2" by code_simp
  ultimately show ?thesis by (simp only:)
qed

lemma latfloat_fix:
  "fadd 31 (fdiv (5698999083662701 / 562949953421312) 60) = 8773215937060859 / 281474976710656"
  by code_simp

lemma lngfloat_fix:
  "fadd 121 (fdiv (8628424289555973 / 281474976710656) 60) = 4275284906685247 / 35184372088832"
  by code_simp

lemma strptime_fix_time: "strptime ''010124 235959.500000'' = Inr fix_time"
  by (simp add: fix_time_def strptime_def days_in_month_def is_leap_def format_regex_def seq_def
      yield_def rx_d_def rx_m_def rx_y_def rx_H_def rx_M_def rx_S_def rx_f_def rx_space_def
      rx_dot_def two_digits_def one_digit_def is_digit_def digit_val_def is_space_def)

lemma decode_date: "decode ''010124'' = Inr ''010124''"
  by (simp add: decode_def)

lemma decode_utctime: "decode ''235959.500000'' = Inr ''235959.500000''"
  by (simp add: decode_def)

lemma parse_fix_line:
  "parse_gpsinfo_line utcoffset fix_line =
     Inr \<lparr>lat = 8773215937060859 / 281474976710656, lng = 4275284906685247 / 35184372088832,
          timestamp = datetime_timestamp utcoffset fix_time,
          alt = binary64 (123 / 10), speed = 1 / 2\<rparr>"
  unfolding parse_gpsinfo_line_def split_fix_line
  by (simp add: bind_def float_lat_deg float_lat_min float_lng_deg float_lng_min float_alt
      float_speed latfloat_fix lngfloat_fix decode_date decode_utctime strptime_fix_time)

lemma mktime_fix_time: "mktime utcoffset fix_time = 1704153599 - utcoffset"
  by (simp add: fix_time_def mktime_def ymd2ord_def days_before_year_def days_before_month_def days_in_month_def is_leap_def)

lemma binary64_half: "fdiv 500000 1000000 = 1 / 2"
  by code_simp

lemma binary64_seconds_utc: "binary64 1704153599 = 1704153599"
  by code_simp

lemma fadd_seconds_utc: "fadd 1704153599 (1 / 2) = 3408307199 / 2"
  by code_simp

lemma timestamp_utc: "datetime_timestamp 0 fix_time = 3408307199 / 2"
  unfolding datetime_timestamp_def mktime_fix_time
  by (simp add: fix_time_def binary64_half binary64_seconds_utc fadd_seconds_utc)

lemma binary64_seconds_ahead: "binary64 1704149999 = 1704149999"
  by code_simp

lemma fadd_seconds_ahead: "fadd 1704149999 (1 / 2) = 3408299999 / 2"
  by code_simp

lemma timestamp_ahead: "datetime_timestamp 3600 fix_time = 3408299999 / 2"
  unfolding datetime_timestamp_def mktime_fix_time
  by (simp add: fix_time_def binary64_half binary64_seconds_ahead fadd_seconds_ahead)

lemma splitlines_fix_reply:
  "splitlines fix_reply =
     [''AT+CGPSINFO'',
      ''+CGPSINFO: 3110.123456,N,12130.654321,E,010124,235959.500000,12.3,0.5,0'', ''OK'']"
  by (simp add: fix_reply_def fix_line_def splitlines_def CR_def LF_def CRLF_def)

lemma drop_prefix_fix_line:
  "drop (length ''+CGPSINFO: '')
     ''+CGPSINFO: 3110.123456,N,12130.654321,E,010124,235959.500000,12.3,0.5,0'' = fix_line"
  by (simp add: fix_line_def)

text \<open>The two comparisons with \<open>'S'\<close> and \<open>'W'\<close> never hold, whatever the fields are.\<close>

lemma parse_gpsinfo_line_hemisphere_ignored:
  assumes "split_bytes line (CHR '','') = [la, ns, lo, ew, d, t, a, s, c]"
    and "split_bytes line' (CHR '','') = [la, ns', lo, ew', d, t, a, s, c]"
  shows "parse_gpsinfo_line utcoffset line = parse_gpsinfo_line utcoffset line'"
  unfolding parse_gpsinfo_line_def assms by simp

text \<open>
  C1.  The data line of the fix at 31 degrees 10.123456 minutes South and 121 degrees
  30.654321 minutes West decodes to a positive latitude and a positive longitude, the
  values of the same fix North and East: the hemisphere fields are \<open>bytes\<close>, the source
  compares them with \<open>str\<close> literals, and so it never negates.
\<close>

theorem parse_gpsinfo_line_south_west:
  "parse_gpsinfo_line utcoffset southwest_line =
     Inr \<lparr>lat = 8773215937060859 / 281474976710656, lng = 4275284906685247 / 35184372088832,
          timestamp = datetime_timestamp utcoffset fix_time,
          alt = binary64 (123 / 10), speed = 1 / 2\<rparr>"
  unfolding parse_gpsinfo_line_def split_southwest_line
  by (simp add: bind_def float_lat_deg float_lat_min float_lng_deg float_lng_min float_alt
      float_speed latfloat_fix lngfloat_fix decode_date decode_utctime strptime_fix_time)

text \<open>
  C2.  On a host whose local time is one hour ahead of UTC, the date \<open>010124\<close> and the
  time \<open>235959.500000\<close> decode to 1704149999.5 seconds since the epoch, which is
  2024-01-01T22:59:59.5 UTC: \<open>timestamp()\<close> reads the fields as local time.  The instant
  2024-01-01T23:59:59.5 UTC is 1704153599.5, which is what a host on UTC computes.
\<close>

theorem parse_gpsinfo_line_local_time:
  "parse_gpsinfo_line 3600 fix_line =
     Inr \<lparr>lat = 8773215937060859 / 281474976710656, lng = 4275284906685247 / 35184372088832,
          timestamp = 3408299999 / 2,
          alt = binary64 (123 / 10), speed = 1 / 2\<rparr>"
  by (simp only: parse_fix_line timestamp_ahead)

lemma parse_gpsinfo_line_utc_host:
  "parse_gpsinfo_line 0 fix_line =
     Inr \<lparr>lat = 8773215937060859 / 281474976710656, lng = 4275284906685247 / 35184372088832,
          timestamp = 3408307199 / 2,
          alt = binary64 (123 / 10), speed = 1 / 2\<rparr>"
  by (simp only: parse_fix_line timestamp_utc)

text \<open>
  C9.  A transcript of the three lines \<open>AT+CGPSINFO\<close>, the data line of the example
  fix and \<open>OK\<close> parses to a complete \<open>GPSInfo\<close>.  Its latitude is the two-digit degrees
  plus the minutes divided by 60 and its longitude the three-digit degrees plus the
  minutes divided by 60, in floating point; they are within one millionth of 31.168724
  and 121.510905.  The altitude is the float nearest to 12.3 and the speed is 0.5.
\<close>

theorem parse_gpsinfo_fix:
  assumes "splitlines gpsinfo =
     [''AT+CGPSINFO'',
      ''+CGPSINFO: 3110.123456,N,12130.654321,E,010124,235959.500000,12.3,0.5,0'', ''OK'']"
  shows "\<exists>fix. parse_gpsinfo utcoffset gpsinfo = Inr fix
      \<and> lat fix = fadd 31 (fdiv (binary64 (10123456 / 1000000)) 60)
      \<and> lng fix = fadd 121 (fdiv (binary64 (30654321 / 1000000)) 60)
      \<and> \<bar>lat fix - 31168724 / 1000000\<bar> < 1 / 1000000
      \<and> \<bar>lng fix - 121510905 / 1000000\<bar> < 1 / 1000000
      \<and> alt fix = binary64 (123 / 10)
      \<and> \<bar>alt fix - 123 / 10\<bar> < 1 / 1000000000000
      \<and> speed fix = 1 / 2"
proof -
  have b1: "binary64 (10123456 / 1000000) = 5698999083662701 / 562949953421312" by code_simp
  have b2: "binary64 (30654321 / 1000000) = 8628424289555973 / 281474976710656" by code_simp
  have "scan_lines utcoffset (splitlines gpsinfo) = parse_gpsinfo_line utcoffset fix_line"
    unfolding assms by (simp add: startswith_def drop_prefix_fix_line [simplified])
  then have "parse_gpsinfo utcoffset gpsinfo = parse_gpsinfo_line utcoffset fix_line"
    by (simp add: parse_gpsinfo_def Let_def assms)
  then show ?thesis
    unfolding parse_fix_line b1 b2 latfloat_fix lngfloat_fix
    by (simp add: binary64_alt)
qed

theorem parse_gpsinfo_fix_witness:
  "\<exists>fix. parse_gpsinfo 0 fix_reply = Inr fix
      \<and> \<bar>lat fix - 31168724 / 1000000\<bar> < 1 / 1000000
      \<and> \<bar>lng fix - 121510905 / 1000000\<bar> < 1 / 1000000
      \<and> alt fix = binary64 (123 / 10)
      \<and> speed fix = 1 / 2"
  using parse_gpsinfo_fix [OF splitlines_fix_reply, of 0] by blast

section \<open>Properties of the parser\<close>

lemma py_float_error: "py_float s = Inl e \<Longrightarrow> e = ValueError Float_conversion"
  by (auto simp: py_float_def split: list.splits option.splits if_splits)

lemma decode_error: "decode s = Inl e \<Longrightarrow> e = ValueError Decode"
  by (auto simp: decode_def split: if_splits)

lemma strptime_error: "strptime s = Inl e \<Longrightarrow> e = ValueError Strptime"
  by (auto simp: strptime_def split: list.splits if_splits)

lemma bind_Inl: "bind r f = Inl e \<Longrightarrow> r = Inl e \<or> (\<exists>a. r = Inr a \<and> f a = Inl e)"
  by (cases r) (simp_all add: bind_def)

text \<open>No conversion of a data line raises the framing error.\<close>

lemma parse_gpsinfo_line_error:
  assumes "parse_gpsinfo_line utcoffset line = Inl e"
  shows "e \<noteq> ValueError Wrong_format"
proof (cases "\<exists>a b c d e f g h i. split_bytes line (CHR '','') = [a, b, c, d, e, f, g, h, i]")
  case True
  then obtain a b c d e' f g h i where
    sp: "split_bytes line (CHR '','') = [a, b, c, d, e', f, g, h, i]" by blast
  show ?thesis
    using assms unfolding parse_gpsinfo_line_def sp
    by (auto simp: Let_def dest!: bind_Inl py_float_error decode_error strptime_error)
next
  case False
  then have "parse_gpsinfo_line utcoffset line = Inl (ValueError Unpack)"
    unfolding parse_gpsinfo_line_def by (auto split: list.splits)
  with assms have "e = ValueError Unpack" by simp
  then show ?thesis by simp
qed

lemma scan_lines_error: "scan_lines utcoffset ls = Inl e \<Longrightarrow> e \<noteq> ValueError Wrong_format"
  by (induction ls) (auto split: if_splits dest: parse_gpsinfo_line_error)

lemma splitlines_empty_reply:
  "splitlines empty_reply = [''AT+CGPSINFO'', [], ''+CGPSINFO: ,,,,,,,,'', [], ''OK'']"
  by (simp add: empty_reply_def splitlines_def CR_def LF_def CRLF_def)

lemma splitlines_truncated_reply:
  "splitlines truncated_reply = [''AT+CGPSINFO'', [], ''+CGPSINFO: ,,,,,,,,'']"
  by (simp add: truncated_reply_def splitlines_def CR_def LF_def CRLF_def)

text \<open>
  C8.  \<open>parse_gpsinfo\<close> raises the \<open>ValueError\<close> of its framing test, and no other
  exception and no result, exactly when the transcript has no lines, or its first line is
  not \<open>AT+CGPSINFO\<close>, or its last line is not \<open>OK\<close>.
\<close>

theorem parse_gpsinfo_framing:
  "parse_gpsinfo utcoffset gpsinfo = Inl (ValueError Wrong_format) \<longleftrightarrow>
     \<not> (splitlines gpsinfo \<noteq> [] \<and> hd (splitlines gpsinfo) = ''AT+CGPSINFO''
        \<and> last (splitlines gpsinfo) = ''OK'')"
  using scan_lines_error [of utcoffset "splitlines gpsinfo" "ValueError Wrong_format"]
  by (auto simp: parse_gpsinfo_def Let_def)

text \<open>A transcript without the trailing \<open>OK\<close> line.\<close>

theorem parse_gpsinfo_framing_witness:
  "last (splitlines truncated_reply) \<noteq> ''OK'' \<and>
   parse_gpsinfo 0 truncated_reply = Inl (ValueError Wrong_format)"
  using parse_gpsinfo_framing [of 0 truncated_reply]
  by (simp add: splitlines_truncated_reply)

lemma split_bytes_empty_fields:
  "split_bytes '',,,,,,,,'' (CHR '','') = [[], [], [], [], [], [], [], [], []]"
  by (simp add: split_bytes_def)

lemma parse_gpsinfo_line_empty_fields:
  "parse_gpsinfo_line utcoffset '',,,,,,,,'' = Inl (ValueError Float_conversion)"
  by (simp add: parse_gpsinfo_line_def split_bytes_empty_fields py_float_def bind_def)

lemma scan_lines_skip:
  "list_all (\<lambda>l. \<not> startswith l ''+CGPSINFO: '') pre \<Longrightarrow>
   scan_lines utcoffset (pre @ ls) = scan_lines utcoffset ls"
  by (induction pre) simp_all

text \<open>
  C3, as the source has it.  On a well-framed transcript whose first data line is
  \<open>+CGPSINFO: ,,,,,,,,\<close>, \<open>parse_gpsinfo\<close> raises \<open>ValueError\<close>: the one of \<open>float\<close> on
  the empty latitude text.
\<close>

theorem parse_gpsinfo_all_empty:
  assumes "splitlines gpsinfo = pre @ ''+CGPSINFO: ,,,,,,,,'' # post"
    and "list_all (\<lambda>l. \<not> startswith l ''+CGPSINFO: '') pre"
    and "hd (splitlines gpsinfo) = ''AT+CGPSINFO''"
    and "last (splitlines gpsinfo) = ''OK''"
  shows "parse_gpsinfo utcoffset gpsinfo = Inl (ValueError Float_conversion)"
proof -
  have "scan_lines utcoffset (splitlines gpsinfo) = Inl (ValueError Float_conversion)"
    unfolding assms(1) using assms(2)
    by (simp add: scan_lines_skip startswith_def parse_gpsinfo_line_empty_fields)
  moreover have "splitlines gpsinfo \<noteq> []"
    using assms(1) by simp
  ultimately show ?thesis
    using assms(3,4) by (simp add: parse_gpsinfo_def Let_def)
qed

theorem parse_gpsinfo_all_empty_witness:
  "splitlines empty_reply = [''AT+CGPSINFO'', []] @ ''+CGPSINFO: ,,,,,,,,'' # [[], ''OK''] \<and>
   parse_gpsinfo 0 empty_reply = Inl (ValueError Float_conversion)"
  using parse_gpsinfo_all_empty [of empty_reply "[''AT+CGPSINFO'', []]" "[[], ''OK'']" 0]
  by (simp add: splitlines_empty_reply startswith_def)

text \<open>The reply of a modem without a fix makes \<open>parse_gpsinfo\<close> raise.\<close>

theorem parse_gpsinfo_all_empty_counterexample:
  "parse_gpsinfo 0 empty_reply = Inl (ValueError Float_conversion)"
  by (simp add: parse_gpsinfo_def Let_def splitlines_empty_reply startswith_def
      parse_gpsinfo_line_empty_fields)

section \<open>Properties of the transport\<close>

lemma written_send_at_complex:
  "written (snd (send_at_complex comm command back)) = written comm @ [command @ CRLF]"
  by (simp add: send_at_complex_def comm_write_def comm_inWaiting_def comm_read_def Let_def
      split: list.splits prod.splits)

text \<open>
  C10.  When bytes are reported waiting after the command was written and the read that
  follows returns the empty byte string, \<open>send_at_complex\<close> runs off its end and returns
  \<open>None\<close>: no pair of a status and a transcript.
\<close>

theorem send_at_complex_falls_through:
  assumes "comm_inWaiting (comm_write comm (command @ CRLF)) = (n, comm2)"
    and "n \<noteq> 0"
    and "comm_inWaiting comm2 = (m, comm3)"
    and "comm_read comm3 m = ([], comm4)"
  shows "send_at_complex comm command back = (None, comm4)"
  using assms by (simp add: send_at_complex_def Let_def)

theorem send_at_complex_falls_through_witness:
  "send_at_complex vanished_channel GPS_INFO ''+CGPSINFO: '' =
     (None, \<lparr>written = [GPS_INFO @ CRLF], waiting = [], arriving = []\<rparr>)"
  using send_at_complex_falls_through
    [of vanished_channel GPS_INFO 5
        "\<lparr>written = [GPS_INFO @ CRLF], waiting = [5], arriving = [[]]\<rparr>" 5
        "\<lparr>written = [GPS_INFO @ CRLF], waiting = [], arriving = [[]]\<rparr>"
        "\<lparr>written = [GPS_INFO @ CRLF], waiting = [], arriving = []\<rparr>" "''+CGPSINFO: ''"]
  by (simp add: vanished_channel_def comm_write_def comm_inWaiting_def comm_read_def)

section \<open>Properties of the session\<close>

lemma polling_False: "polling utcoffset False comm = (Inr None, comm)"
  by (subst polling.simps) simp

text \<open>The loop body runs once: every path through it returns or clears the flag.\<close>

lemma polling_True:
  "polling utcoffset True comm =
     (case send_at_complex comm GPS_INFO ''+CGPSINFO: '' of
        (None, comm1) \<Rightarrow> (Inl TypeError, comm1)
      | (Some (status, serial_answer), comm1) \<Rightarrow>
          if status = 0 then (Inr None, snd (send_at_complex comm1 GPS_STOP ''OK''))
          else if contains '',,,,,,'' serial_answer then (Inr None, comm1)
          else (bind (parse_gpsinfo utcoffset serial_answer) (\<lambda>fix. Inr (Some fix)), comm1))"
  by (subst polling.simps) (simp add: polling_False split: prod.splits option.splits)

lemma contains_ok_reply: "contains ''OK'' ok_reply"
  by (simp add: ok_reply_def startswith_def)

lemma length_ok_reply: "length ok_reply = 4"
  by (simp add: ok_reply_def CRLF_def)

lemma ok_reply_not_Nil: "ok_reply \<noteq> []"
  by (simp add: ok_reply_def)

lemma not_contains_error_reply: "\<not> contains ''+CGPSINFO: '' error_reply"
  by (simp add: error_reply_def startswith_def CRLF_def CR_def LF_def)

lemma length_error_reply: "length error_reply = 7"
  by (simp add: error_reply_def CRLF_def)

lemma error_reply_not_Nil: "error_reply \<noteq> []"
  by (simp add: error_reply_def)

lemma contains_commas_empty_reply: "contains '',,,,,,'' empty_reply"
  by (simp add: empty_reply_def startswith_def CRLF_def CR_def LF_def)

lemma contains_prefix_empty_reply: "contains ''+CGPSINFO: '' empty_reply"
  by (simp add: empty_reply_def startswith_def CRLF_def CR_def LF_def)

lemma length_empty_reply: "length empty_reply = 41"
  by (simp add: empty_reply_def CRLF_def)

lemma empty_reply_not_Nil: "empty_reply \<noteq> []"
  by (simp add: empty_reply_def)

lemma send_silent:
  "send_at_complex \<lparr>written = w, waiting = [], arriving = []\<rparr> command back =
     (Some (0, []), \<lparr>written = w @ [command @ CRLF], waiting = [], arriving = []\<rparr>)"
  by (simp add: send_at_complex_def comm_write_def comm_inWaiting_def)

lemma send_answered:
  assumes "n \<noteq> 0" and "answer \<noteq> []" and "length answer \<le> m"
  shows "send_at_complex \<lparr>written = w, waiting = n # m # ns, arriving = answer # as\<rparr> command back =
     (Some (if contains back answer then 1 else 0, answer),
      \<lparr>written = w @ [command @ CRLF], waiting = ns, arriving = as\<rparr>)"
  using assms by (simp add: send_at_complex_def comm_write_def comm_inWaiting_def comm_read_def)

lemma start_unexpected_channel:
  "send_at_complex unexpected_channel GPS_STANDALONE ''OK'' =
     (Some (1, ok_reply),
      \<lparr>written = [GPS_STANDALONE @ CRLF], waiting = [7, 7], arriving = [error_reply]\<rparr>)"
  unfolding unexpected_channel_def
  by (subst send_answered) (simp_all add: contains_ok_reply length_ok_reply ok_reply_not_Nil)

lemma query_unexpected_channel:
  "send_at_complex
     \<lparr>written = [GPS_STANDALONE @ CRLF], waiting = [7, 7], arriving = [error_reply]\<rparr>
     GPS_INFO ''+CGPSINFO: '' =
     (Some (0, error_reply),
      \<lparr>written = [GPS_STANDALONE @ CRLF, GPS_INFO @ CRLF], waiting = [], arriving = []\<rparr>)"
  by (subst send_answered) (simp_all add: not_contains_error_reply length_error_reply error_reply_not_Nil)

lemma start_not_ready_channel:
  "send_at_complex not_ready_channel GPS_STANDALONE ''OK'' =
     (Some (1, ok_reply),
      \<lparr>written = [GPS_STANDALONE @ CRLF], waiting = [64, 64, 64, 64],
       arriving = [empty_reply, empty_reply]\<rparr>)"
  unfolding not_ready_channel_def
  by (subst send_answered) (simp_all add: contains_ok_reply length_ok_reply ok_reply_not_Nil)

lemma query_not_ready_channel:
  "send_at_complex
     \<lparr>written = [GPS_STANDALONE @ CRLF], waiting = [64, 64, 64, 64],
      arriving = [empty_reply, empty_reply]\<rparr>
     GPS_INFO ''+CGPSINFO: '' =
     (Some (1, empty_reply),
      \<lparr>written = [GPS_STANDALONE @ CRLF, GPS_INFO @ CRLF], waiting = [64, 64],
       arriving = [empty_reply]\<rparr>)"
  by (subst send_answered)
     (simp_all add: contains_prefix_empty_reply length_empty_reply empty_reply_not_Nil)

lemma get_gps_position_not_ready_channel:
  "get_gps_position 0 not_ready_channel =
     (Inr None,
      \<lparr>written = [GPS_STANDALONE @ CRLF, GPS_INFO @ CRLF], waiting = [64, 64],
       arriving = [empty_reply]\<rparr>)"
  by (simp add: get_gps_position_def start_not_ready_channel polling_True
      query_not_ready_channel contains_commas_empty_reply)

lemma get_gps_position_silent_channel:
  "get_gps_position 0 silent_channel =
     (Inr None,
      \<lparr>written = [GPS_STANDALONE @ CRLF, GPS_INFO @ CRLF, GPS_STOP @ CRLF], waiting = [],
       arriving = []\<rparr>)"
  by (simp add: get_gps_position_def silent_channel_def send_silent polling_True)

text \<open>
  C7.  When the GPS-info query comes back with status \<open>0\<close>, which is what
  \<open>send_at_complex\<close> returns both for no response and for a reply without the marker,
  the session writes the stop command and returns \<open>None\<close>.  It has written three
  commands then: the start, the one query, the stop.
\<close>

theorem get_gps_position_query_failed:
  assumes "send_at_complex comm GPS_STANDALONE ''OK'' = (r, comm1)"
    and "send_at_complex comm1 GPS_INFO ''+CGPSINFO: '' = (Some (0, serial_answer), comm2)"
    and "send_at_complex comm2 GPS_STOP ''OK'' = (r', comm3)"
  shows "get_gps_position utcoffset comm = (Inr None, comm3) \<and>
         written comm3 = written comm @ [GPS_STANDALONE @ CRLF, GPS_INFO @ CRLF, GPS_STOP @ CRLF]"
proof -
  have "get_gps_position utcoffset comm = (Inr None, comm3)"
    using assms by (simp add: get_gps_position_def polling_True)
  moreover have "written comm1 = written comm @ [GPS_STANDALONE @ CRLF]"
    using written_send_at_complex [of comm GPS_STANDALONE "''OK''"] assms(1) by simp
  moreover have "written comm2 = written comm1 @ [GPS_INFO @ CRLF]"
    using written_send_at_complex [of comm1 GPS_INFO "''+CGPSINFO: ''"] assms(2) by simp
  moreover have "written comm3 = written comm2 @ [GPS_STOP @ CRLF]"
    using written_send_at_complex [of comm2 GPS_STOP "''OK''"] assms(3) by simp
  ultimately show ?thesis by simp
qed

theorem get_gps_position_query_failed_witness:
  "get_gps_position 0 unexpected_channel =
     (Inr None,
      \<lparr>written = [GPS_STANDALONE @ CRLF, GPS_INFO @ CRLF, GPS_STOP @ CRLF], waiting = [],
       arriving = []\<rparr>)"
  using get_gps_position_query_failed
    [where utcoffset = 0, OF start_unexpected_channel query_unexpected_channel send_silent]
  by simp

text \<open>
  C4, as the source has it.  The session does not look at what the start command
  returned: whatever the channel does, the first two commands written are the start
  command and the GPS-info query.
\<close>

theorem get_gps_position_start_ignored:
  "take 2 (drop (length (written comm)) (written (snd (get_gps_position utcoffset comm))))
     = [GPS_STANDALONE @ CRLF, GPS_INFO @ CRLF]"
proof -
  obtain r comm1 where s1: "send_at_complex comm GPS_STANDALONE ''OK'' = (r, comm1)"
    by (cases "send_at_complex comm GPS_STANDALONE ''OK''")
  obtain q comm2 where s2: "send_at_complex comm1 GPS_INFO ''+CGPSINFO: '' = (q, comm2)"
    by (cases "send_at_complex comm1 GPS_INFO ''+CGPSINFO: ''")
  have w1: "written comm1 = written comm @ [GPS_STANDALONE @ CRLF]"
    using written_send_at_complex [of comm GPS_STANDALONE "''OK''"] s1 by simp
  have w2: "written comm2 = written comm1 @ [GPS_INFO @ CRLF]"
    using written_send_at_complex [of comm1 GPS_INFO "''+CGPSINFO: ''"] s2 by simp
  have w3: "written (snd (send_at_complex comm2 GPS_STOP ''OK'')) = written comm2 @ [GPS_STOP @ CRLF]"
    by (rule written_send_at_complex)
  show ?thesis
    using s1 s2 w1 w2 w3
    by (auto simp: get_gps_position_def polling_True split: option.splits prod.splits)
qed

text \<open>
  On the silent port the start command gets no response, status \<open>0\<close>, and the session
  writes the GPS-info query all the same.
\<close>

theorem get_gps_position_start_ignored_counterexample:
  "fst (send_at_complex silent_channel GPS_STANDALONE ''OK'') = Some (0, []) \<and>
   written (snd (get_gps_position 0 silent_channel)) =
     [GPS_STANDALONE @ CRLF, GPS_INFO @ CRLF, GPS_STOP @ CRLF]"
  by (simp add: get_gps_position_silent_channel) (simp add: silent_channel_def send_silent)

text \<open>
  C6, as the source has it.  When the GPS-info query comes back with a nonzero status
  and a transcript that holds six commas in a row, the session returns \<open>None\<close> at once:
  it has written the start command and that one query, and no stop command.
\<close>

theorem get_gps_position_not_ready:
  assumes "send_at_complex comm GPS_STANDALONE ''OK'' = (r, comm1)"
    and "send_at_complex comm1 GPS_INFO ''+CGPSINFO: '' = (Some (status, serial_answer), comm2)"
    and "status \<noteq> 0"
    and "contains '',,,,,,'' serial_answer"
  shows "get_gps_position utcoffset comm = (Inr None, comm2) \<and>
         written comm2 = written comm @ [GPS_STANDALONE @ CRLF, GPS_INFO @ CRLF]"
proof -
  have "get_gps_position utcoffset comm = (Inr None, comm2)"
    using assms by (simp add: get_gps_position_def polling_True)
  moreover have "written comm1 = written comm @ [GPS_STANDALONE @ CRLF]"
    using written_send_at_complex [of comm GPS_STANDALONE "''OK''"] assms(1) by simp
  moreover have "written comm2 = written comm1 @ [GPS_INFO @ CRLF]"
    using written_send_at_complex [of comm1 GPS_INFO "''+CGPSINFO: ''"] assms(2) by simp
  ultimately show ?thesis by simp
qed

theorem get_gps_position_not_ready_witness:
  "get_gps_position 0 not_ready_channel =
     (Inr None,
      \<lparr>written = [GPS_STANDALONE @ CRLF, GPS_INFO @ CRLF], waiting = [64, 64],
       arriving = [empty_reply]\<rparr>)"
  using get_gps_position_not_ready
    [where utcoffset = 0, OF start_not_ready_channel query_not_ready_channel _
      contains_commas_empty_reply]
  by simp

text \<open>
  The modem of \<open>not_ready_channel\<close> would report the empty fix a second time, but the
  session asks once only: one GPS-info query is written, and the second reply is still
  unread when the session returns.
\<close>

theorem get_gps_position_not_ready_counterexample:
  "length (filter (\<lambda>b. b = GPS_INFO @ CRLF) (written (snd (get_gps_position 0 not_ready_channel)))) = 1
   \<and> arriving (snd (get_gps_position 0 not_ready_channel)) = [empty_reply]
   \<and> fst (get_gps_position 0 not_ready_channel) = Inr None"
  by (simp add: get_gps_position_not_ready_channel GPS_STANDALONE_def GPS_INFO_def)

text \<open>
  C5, as the source has it.  Every run of the session ends after one GPS-info query.  If
  \<open>send_at_complex\<close> returned \<open>None\<close> for it, the session raises \<open>TypeError\<close>; on status
  \<open>0\<close> it writes the stop command and returns \<open>None\<close>; on a transcript with six commas
  in a row it returns \<open>None\<close> as well; otherwise it returns the fix that \<open>parse_gpsinfo\<close>
  reads from the transcript, or raises what \<open>parse_gpsinfo\<close> raises.
\<close>

theorem get_gps_position_outcomes:
  "get_gps_position utcoffset comm =
     (case send_at_complex comm GPS_STANDALONE ''OK'' of
        (_, comm1) \<Rightarrow>
          (case send_at_complex comm1 GPS_INFO ''+CGPSINFO: '' of
             (None, comm2) \<Rightarrow> (Inl TypeError, comm2)
           | (Some (status, serial_answer), comm2) \<Rightarrow>
               if status = 0 then (Inr None, snd (send_at_complex comm2 GPS_STOP ''OK''))
               else if contains '',,,,,,'' serial_answer then (Inr None, comm2)
               else (case parse_gpsinfo utcoffset serial_answer of
                       Inl e \<Rightarrow> (Inl e, comm2)
                     | Inr fix \<Rightarrow> (Inr (Some fix), comm2))))"
  by (simp add: get_gps_position_def polling_True bind_def
      split: prod.splits option.splits sum.splits)

text \<open>
  The modem without a fix and the silent port end the session with the same value,
  \<open>None\<close>.
\<close>

theorem get_gps_position_outcomes_counterexample:
  "fst (get_gps_position 0 not_ready_channel) = Inr None \<and>
   fst (get_gps_position 0 silent_channel) = Inr None"
  by (simp add: get_gps_position_not_ready_channel get_gps_position_silent_channel)

end
